theory Spec2Isabelle
  imports Main "HOL-Library.Char_ord" "HOL-Library.List_Lexorder"
begin

section \<open>The shared models (diffsync/models/base.py)\<close>

text \<open>
  A Python value of type \<open>Optional[str]\<close> is a \<open>string option\<close>: \<open>None\<close> is Python's
  \<open>None\<close>, \<open>Some s\<close> the string \<open>s\<close> (the empty string included).
\<close>

record Network =
  network :: string

record IPAddress =
  address :: string
  prefix :: string
  status :: "string option"
  dns_name :: "string option"

text \<open>The class attributes of the two model classes, as the source declares them.\<close>

definition Network_modelname :: string where
  "Network_modelname = ''prefix''"

definition Network_identifiers :: "string list" where
  "Network_identifiers = [''network'']"

definition Network_attributes :: "string list" where
  \<comment> \<open>The class declares no \<open>_attributes\<close>: the inherited default is the empty tuple.\<close>
  "Network_attributes = []"

definition IPAddress_modelname :: string where
  "IPAddress_modelname = ''ipaddress''"

definition IPAddress_identifiers :: "string list" where
  "IPAddress_identifiers = [''address'', ''prefix'']"

definition IPAddress_shortname :: "string list" where
  "IPAddress_shortname = [''address'']"

definition IPAddress_attributes :: "string list" where
  "IPAddress_attributes = [''status'', ''dns_name'']"

text \<open>
  Reading a declared field by its name (Python's \<open>getattr\<close>). The outer option is
  \<open>None\<close> for a name that is no field of the class.
\<close>

definition Network_getattr :: "Network \<Rightarrow> string \<Rightarrow> string option option" where
  "Network_getattr n f = (if f = ''network'' then Some (Some (network n)) else None)"

definition IPAddress_getattr :: "IPAddress \<Rightarrow> string \<Rightarrow> string option option" where
  "IPAddress_getattr a f =
     (if f = ''address'' then Some (Some (address a))
      else if f = ''prefix'' then Some (Some (prefix a))
      else if f = ''status'' then Some (status a)
      else if f = ''dns_name'' then Some (dns_name a)
      else None)"

text \<open>
  The identifier dictionary and the attribute dictionary of a model instance: the
  fields named by \<open>_identifiers\<close> and by \<open>_attributes\<close>, in the declared order.
\<close>

definition Network_get_identifiers :: "Network \<Rightarrow> (string \<times> string option option) list" where
  "Network_get_identifiers n = map (\<lambda>f. (f, Network_getattr n f)) Network_identifiers"

definition Network_get_attrs :: "Network \<Rightarrow> (string \<times> string option option) list" where
  "Network_get_attrs n = map (\<lambda>f. (f, Network_getattr n f)) Network_attributes"

definition IPAddress_get_identifiers :: "IPAddress \<Rightarrow> (string \<times> string option option) list" where
  "IPAddress_get_identifiers a = map (\<lambda>f. (f, IPAddress_getattr a f)) IPAddress_identifiers"

definition IPAddress_get_attrs :: "IPAddress \<Rightarrow> (string \<times> string option option) list" where
  "IPAddress_get_attrs a = map (\<lambda>f. (f, IPAddress_getattr a f)) IPAddress_attributes"

section \<open>The Infoblox client (diffsync/client.py)\<close>

subsection \<open>Values, requests and responses\<close>

text \<open>
  JSON values as Python holds them after \<open>response.json()\<close>. Numbers are integers here;
  an object is its list of key/value pairs, read by the first pair of a key.
\<close>

datatype json = JNull | JBool bool | JInt int | JStr string | JList "json list"
  | JObj "(string \<times> json) list"

text \<open>The exceptions the modelled methods can raise.\<close>

datatype py_exn = RequestException string | HTTPError nat | JSONDecodeError
  | AttributeError | TypeError | IndexError | KeyError

text \<open>
  What \<open>_request\<close> hands to \<open>requests.request\<close>: the method, the two arguments of
  \<open>urljoin\<close> (the base URL and the value formatted into \<open>/wapi/v2.12/{path}\<close>), the
  keyword arguments, and either the session cookie or the basic-auth pair.
\<close>

record request =
  req_method :: string
  req_base :: string
  req_path :: json
  req_params :: "(string \<times> json) list"
  req_json :: "json option"
  req_verify :: bool
  req_headers :: "(string \<times> string) list"
  req_cookies :: "(string \<times> string) list option"
  req_auth :: "(string \<times> string) option"

text \<open>
  What the client reads of a response: the status code, the dictionary
  \<open>resp.cookies.get_dict("ibapauth")\<close>, and the decoded body (\<open>None\<close> when the body
  is no JSON, so that \<open>json()\<close> raises).
\<close>

record response =
  status_code :: nat
  ibapauth_cookies :: "(string \<times> string) list"
  body :: "json option"

text \<open>
  The object state of \<open>InfobloxApi\<close>, with the list of requests issued so far as a
  ghost field.
\<close>

record InfobloxApi =
  url :: string
  username :: string
  password :: string
  verify_ssl :: bool
  cookie :: "(string \<times> string) list option"
  sent :: "request list"

text \<open>
  The appliance and the network are a parameter: the outcome of \<open>requests.request\<close>
  for a request, given the requests issued before it.
\<close>

type_synonym appliance = "request list \<Rightarrow> request \<Rightarrow> py_exn + response"

definition truthy :: "json \<Rightarrow> bool" where
  "truthy v = (case v of JNull \<Rightarrow> False | JBool b \<Rightarrow> b | JInt i \<Rightarrow> i \<noteq> 0
     | JStr s \<Rightarrow> s \<noteq> [] | JList xs \<Rightarrow> xs \<noteq> [] | JObj kvs \<Rightarrow> kvs \<noteq> [])"

definition is_list :: "json \<Rightarrow> bool" where
  "is_list v = (case v of JList xs \<Rightarrow> True | _ \<Rightarrow> False)"

definition py_get :: "json \<Rightarrow> string \<Rightarrow> py_exn + json" where
  \<comment> \<open>\<open>v.get(k)\<close>: only a dictionary has the method; a missing key gives \<open>None\<close>.\<close>
  "py_get v k = (case v of
      JObj kvs \<Rightarrow> Inr (case map_of kvs k of None \<Rightarrow> JNull | Some x \<Rightarrow> x)
    | _ \<Rightarrow> Inl AttributeError)"

definition py_index0 :: "json \<Rightarrow> py_exn + json" where
  \<comment> \<open>\<open>v[0]\<close>\<close>
  "py_index0 v = (case v of
      JList xs \<Rightarrow> (case xs of [] \<Rightarrow> Inl IndexError | x # _ \<Rightarrow> Inr x)
    | JStr s \<Rightarrow> (case s of [] \<Rightarrow> Inl IndexError | c # _ \<Rightarrow> Inr (JStr [c]))
    | JObj kvs \<Rightarrow> Inl KeyError
    | _ \<Rightarrow> Inl TypeError)"

definition response_json :: "response \<Rightarrow> py_exn + json" where
  "response_json resp = (case body resp of None \<Rightarrow> Inl JSONDecodeError | Some j \<Rightarrow> Inr j)"

subsection \<open>\<open>_request\<close>\<close>

definition cookie_truthy :: "InfobloxApi \<Rightarrow> bool" where
  "cookie_truthy api = (case cookie api of None \<Rightarrow> False | Some c \<Rightarrow> c \<noteq> [])"

definition build_request ::
  "InfobloxApi \<Rightarrow> string \<Rightarrow> json \<Rightarrow> (string \<times> json) list \<Rightarrow> json option \<Rightarrow> request" where
  "build_request api method path params js =
     \<lparr>req_method = method, req_base = url api, req_path = path, req_params = params,
      req_json = js, req_verify = verify_ssl api,
      req_headers = [(''Content-Type'', ''application/json'')],
      req_cookies = (if cookie_truthy api then cookie api else None),
      req_auth = (if cookie_truthy api then None else Some (username api, password api))\<rparr>"

text \<open>
  With a cookie the request carries it; without one it carries basic auth and the
  response's \<open>ibapauth\<close> cookies are stored before the status is checked.
  \<open>raise_for_status\<close> raises for a status code from 400 to 599.
\<close>

definition api_request ::
  "appliance \<Rightarrow> string \<Rightarrow> json \<Rightarrow> (string \<times> json) list \<Rightarrow> json option \<Rightarrow> InfobloxApi
     \<Rightarrow> (py_exn + response) \<times> InfobloxApi" where
  "api_request W method path params js api =
     (let r = build_request api method path params js;
          api1 = api\<lparr>sent := sent api @ [r]\<rparr>
      in case W (sent api) r of
           Inl e \<Rightarrow> (Inl e, api1)
         | Inr resp \<Rightarrow>
             (let api2 = (if cookie_truthy api then api1
                          else api1\<lparr>cookie := Some (ibapauth_cookies resp)\<rparr>)
              in if 400 \<le> status_code resp \<and> status_code resp < 600
                 then (Inl (HTTPError (status_code resp)), api2)
                 else (Inr resp, api2)))"

subsection \<open>The pattern of \<open>get_dhcp_lease\<close> and \<open>re.findall\<close>\<close>

text \<open>
  The pattern uses character classes, concatenation, alternation, the greedy \<open>?\<close> and
  a counted repetition. \<open>bt r s\<close> lists, in the order a backtracking matcher tries them,
  the rests of \<open>s\<close> after each way of matching \<open>r\<close> at its start; the match Python
  reports is the first.
\<close>

datatype regex = Eps | Cls "char list" | Seq regex regex | Alt regex regex | Opt regex

fun bt :: "regex \<Rightarrow> string \<Rightarrow> string list" where
  "bt Eps s = [s]"
| "bt (Cls cs) [] = []"
| "bt (Cls cs) (c # t) = (if c \<in> set cs then [t] else [])"
| "bt (Seq r1 r2) s = concat (map (bt r2) (bt r1 s))"
| "bt (Alt r1 r2) s = bt r1 s @ bt r2 s"
| "bt (Opt r) s = bt r s @ [s]"

fun rep :: "nat \<Rightarrow> regex \<Rightarrow> regex" where
  "rep 0 r = Eps"
| "rep (Suc n) r = Seq r (rep n r)"

text \<open>
  \<open>findall r k s\<close>: the non-overlapping matches of \<open>r\<close> in \<open>s\<close>, left to right, where the
  first \<open>k\<close> characters of \<open>s\<close> lie inside the previous match and are skipped. An empty
  match is recorded and the scan moves on by one character.
\<close>

fun findall :: "regex \<Rightarrow> nat \<Rightarrow> string \<Rightarrow> string list" where
  "findall r k [] = (if k = 0 \<and> bt r [] \<noteq> [] then [[]] else [])"
| "findall r (Suc k) (c # t) = findall r k t"
| "findall r 0 (c # t) =
     (case bt r (c # t) of
        [] \<Rightarrow> findall r 0 t
      | rest # _ \<Rightarrow>
          (let m = length (c # t) - length rest
           in take m (c # t) # findall r (m - 1) t))"

definition digit :: regex where
  "digit = Cls ''0123456789''"

definition octet :: regex where
  \<comment> \<open>\<open>25[0-5]|2[0-4][0-9]|[01]?[0-9][0-9]?\<close>\<close>
  "octet = Alt (Seq (Cls ''2'') (Seq (Cls ''5'') (Cls ''012345'')))
          (Alt (Seq (Cls ''2'') (Seq (Cls ''01234'') digit))
               (Seq (Opt (Cls ''01'')) (Seq digit (Opt digit))))"

definition ipv4_pattern :: regex where
  "ipv4_pattern = Seq (rep 3 (Seq octet (Cls ''.''))) octet"

subsection \<open>DHCP leases\<close>

text \<open>
  The method sets \<open>data\<close> to one of two literal lists and returns it; the calls of
  \<open>get_dhcp_lease_from_ipv4\<close> and \<open>get_dhcp_lease_from_hostname\<close> are commented out in
  the source.
\<close>

definition get_dhcp_lease :: "string \<Rightarrow> InfobloxApi \<Rightarrow> (py_exn + json) \<times> InfobloxApi" where
  "get_dhcp_lease lease_to_check api =
     (let ips = length (findall ipv4_pattern 0 lease_to_check)
      in if ips > 0 then
           (Inr (JList [JObj
              [(''_ref'', JStr ''lease/ZG5zLmxlYXNlJDQvMTcyLjE2LjIwMC4xMDEvMC8:172.26.1.250/default1''),
               (''binding_state'', JStr ''ACTIVE''),
               (''fingerprint'', JStr ''Cisco/Linksys SPA series IP Phone''),
               (''hardware'', JStr ''16:55:a4:1b:98:c9'')]]), api)
         else
           (Inr (JList [JObj
              [(''_ref'', JStr ''lease/ZG5zLmxlYXNlJC8xOTIuMTY4LjQuMy8wLzE3:192.168.4.3/Company%201''),
               (''binding_state'', JStr ''STATIC''),
               (''client_hostname'', JStr ''test''),
               (''hardware'', JStr ''12:34:56:78:91:23'')]]), api))"

definition get_dhcp_lease_from_ipv4 ::
  "appliance \<Rightarrow> string \<Rightarrow> InfobloxApi \<Rightarrow> (py_exn + json) \<times> InfobloxApi" where
  "get_dhcp_lease_from_ipv4 W ip_address api =
     (case api_request W ''GET'' (JStr ''lease'')
             [(''address'', JStr ip_address),
              (''_return_fields'', JStr ''binding_state,hardware,client_hostname,fingerprint''),
              (''_return_as_object'', JInt 1)] None api of
        (Inl e, api1) \<Rightarrow> (Inl e, api1)
      | (Inr resp, api1) \<Rightarrow> (response_json resp, api1))"

definition get_dhcp_lease_from_hostname ::
  "appliance \<Rightarrow> string \<Rightarrow> InfobloxApi \<Rightarrow> (py_exn + json) \<times> InfobloxApi" where
  "get_dhcp_lease_from_hostname W hostname api =
     (case api_request W ''GET'' (JStr ''lease'')
             [(''client_hostname'', JStr hostname),
              (''_return_fields'', JStr ''binding_state,hardware,client_hostname,fingerprint''),
              (''_return_as_object'', JInt 1)] None api of
        (Inl e, api1) \<Rightarrow> (Inl e, api1)
      | (Inr resp, api1) \<Rightarrow> (response_json resp, api1))"

subsection \<open>Next available address and fixed-address reservation\<close>

definition find_network_reference ::
  "appliance \<Rightarrow> string \<Rightarrow> InfobloxApi \<Rightarrow> (py_exn + json) \<times> InfobloxApi" where
  "find_network_reference W net api =
     (case api_request W ''GET'' (JStr ''network'') [(''network'', JStr net)] None api of
        (Inl e, api1) \<Rightarrow> (Inl e, api1)
      | (Inr resp, api1) \<Rightarrow> (response_json resp, api1))"

definition find_next_available_ip ::
  "appliance \<Rightarrow> string \<Rightarrow> InfobloxApi \<Rightarrow> (py_exn + json) \<times> InfobloxApi" where
  "find_next_available_ip W net api =
     (case find_network_reference W net api of
        (Inl err, api1) \<Rightarrow> (Inr (JStr ''''), api1)
      | (Inr network_ref_id, api1) \<Rightarrow>
          if truthy network_ref_id \<and> is_list network_ref_id then
            (case py_index0 network_ref_id of
               Inl e \<Rightarrow> (Inl e, api1)
             | Inr first \<Rightarrow>
                 (case py_get first ''_ref'' of
                    Inl e \<Rightarrow> (Inl e, api1)
                  | Inr url_path \<Rightarrow>
                      (case api_request W ''POST'' url_path
                              [(''_function'', JStr ''next_available_ip'')]
                              (Some (JObj [(''num'', JInt 1)])) api1 of
                         (Inl e, api2) \<Rightarrow> (Inl e, api2)
                       | (Inr resp, api2) \<Rightarrow>
                           (case response_json resp of
                              Inl e \<Rightarrow> (Inl e, api2)
                            | Inr j \<Rightarrow>
                                (case py_get j ''ips'' of
                                   Inl e \<Rightarrow> (Inl e, api2)
                                 | Inr ips \<Rightarrow> (py_index0 ips, api2))))))
          else (Inr (JStr ''''), api1))"

definition reserve_fixed_address ::
  "appliance \<Rightarrow> string \<Rightarrow> string \<Rightarrow> InfobloxApi \<Rightarrow> (py_exn + json) \<times> InfobloxApi" where
  "reserve_fixed_address W net mac_address api =
     (case find_next_available_ip W net api of
        (Inl e, api1) \<Rightarrow> (Inl e, api1)
      | (Inr ip_address, api1) \<Rightarrow>
          if truthy ip_address then
            (case api_request W ''POST'' (JStr ''fixedaddress'')
                    [(''_return_fields'', JStr ''ipv4addr''), (''_return_as_object'', JInt 1)]
                    (Some (JObj [(''ipv4addr'', ip_address), (''mac'', JStr mac_address)])) api1 of
               (Inl e, api2) \<Rightarrow> (Inl e, api2)
             | (Inr resp, api2) \<Rightarrow>
                 (case response_json resp of
                    Inl e \<Rightarrow> (Inl e, api2)
                  | Inr j \<Rightarrow>
                      (case py_get j ''result'' of
                         Inl e \<Rightarrow> (Inl e, api2)
                       | Inr res \<Rightarrow> (py_get res ''ipv4addr'', api2))))
          else (Inr (JBool False), api1))"

subsection \<open>PTR records\<close>

fun split_on :: "char \<Rightarrow> string \<Rightarrow> string list" where
  "split_on sep [] = [[]]"
| "split_on sep (c # cs) =
     (if c = sep then [] # split_on sep cs
      else (case split_on sep cs of [] \<Rightarrow> [[c]] | w # ws \<Rightarrow> (c # w) # ws))"

fun join_on :: "string \<Rightarrow> string list \<Rightarrow> string" where
  "join_on sep [] = []"
| "join_on sep [w] = w"
| "join_on sep (w # ws) = w @ sep @ join_on sep ws"

definition is_digit :: "char \<Rightarrow> bool" where
  "is_digit c = (c \<in> set ''0123456789'')"

definition digit_val :: "char \<Rightarrow> nat" where
  "digit_val c = of_char c - 48"

definition dec_val :: "string \<Rightarrow> nat" where
  "dec_val w = foldl (\<lambda>a c. 10 * a + digit_val c) 0 w"

definition ipv4_part :: "string \<Rightarrow> bool" where
  "ipv4_part w = (w \<noteq> [] \<and> list_all is_digit w \<and> (length w = 1 \<or> hd w \<noteq> CHR ''0'')
     \<and> dec_val w \<le> 255)"

definition valid_ipv4 :: "string \<Rightarrow> bool" where
  "valid_ipv4 text =
     (length (split_on CHR ''.'' text) = 4 \<and> list_all ipv4_part (split_on CHR ''.'' text))"

text \<open>
  Modelled from the spec: \<open>dns.reversename.from_address\<close> belongs to the dnspython
  package and is not in the sources. For a valid IPv4 address (four decimal parts from
  0 to 255 without leading zeros, separated by dots) the text of the name it returns is
  the parts in reverse order followed by \<open>.in-addr.arpa.\<close>; what it does on any other
  text is the parameter \<open>other\<close>.
\<close>

definition reversename_from_address ::
  "(string \<Rightarrow> py_exn + string) \<Rightarrow> string \<Rightarrow> py_exn + string" where
  "reversename_from_address other text =
     (if valid_ipv4 text
      then Inr (join_on ''.'' (rev (split_on CHR ''.'' text)) @ ''.in-addr.arpa.'')
      else other text)"

definition create_ptr_record ::
  "appliance \<Rightarrow> (string \<Rightarrow> py_exn + string) \<Rightarrow> string \<Rightarrow> string \<Rightarrow> InfobloxApi
     \<Rightarrow> (py_exn + json) \<times> InfobloxApi" where
  "create_ptr_record W other fqdn ip_address api =
     (case reversename_from_address other ip_address of
        Inl e \<Rightarrow> (Inl e, api)
      | Inr name \<Rightarrow>
          (let reverse_host = butlast name
           in case api_request W ''POST'' (JStr ''record:ptr'')
                     [(''_return_fields'', JStr ''name,ptrdname,ipv4addr''),
                      (''_return_as_object'', JInt 1)]
                     (Some (JObj [(''name'', JStr reverse_host), (''ptrdname'', JStr fqdn),
                                  (''ipv4addr'', JStr ip_address)])) api of
                (Inl e, api1) \<Rightarrow> (Inl e, api1)
              | (Inr resp, api1) \<Rightarrow>
                  (case response_json resp of
                     Inl e \<Rightarrow> (Inl e, api1)
                   | Inr j \<Rightarrow> (py_get j ''result'', api1))))"

section \<open>The reconciliation engine\<close>

text \<open>
  The sources hold the two model classes only; the engine that compares two loaded
  snapshots is not among them. Its definitions below follow the specification,
  sections 3 and 4.2, over the model classes of the first section.
\<close>

text \<open>
  Modelled from the spec: the two entity kinds, an entity of either kind, and the
  identifier of an entity (the CIDR string of a Network, the pair of address and prefix
  of an IPAddress).
\<close>

datatype kind = NetworkKind | IPAddressKind

datatype entity = NetworkEntity Network | IPAddressEntity IPAddress

datatype ident = NetworkId string | IPAddressId string string

text \<open>
  Modelled from the spec: a changed field with its old and new value, and the three
  operations. A create carries the source record, an update the identifier and the
  changed fields, a delete the identifier.
\<close>

datatype change = Change string "string option" "string option"

datatype operation = Create entity | Update ident "change list" | Delete ident

text \<open>
  Modelled from the spec: a snapshot, the mapping from (entity kind, identifier) to the
  entity record, kept as the list of its records.
\<close>

type_synonym snapshot = "entity list"

text \<open>Modelled from the spec: the identifier of a record and the kind of an identifier.\<close>

fun entity_ident :: "entity \<Rightarrow> ident" where
  "entity_ident (NetworkEntity n) = NetworkId (network n)"
| "entity_ident (IPAddressEntity a) = IPAddressId (address a) (prefix a)"

fun ident_kind :: "ident \<Rightarrow> kind" where
  "ident_kind (NetworkId n) = NetworkKind"
| "ident_kind (IPAddressId a p) = IPAddressKind"

text \<open>
  Modelled from the spec: the identifier string that orders operations. A Network's is
  its CIDR string; how the pair (address, prefix) is written as one string is not said,
  so it is the parameter \<open>compose\<close>.
\<close>

fun ident_string :: "(string \<Rightarrow> string \<Rightarrow> string) \<Rightarrow> ident \<Rightarrow> string" where
  "ident_string compose (NetworkId n) = n"
| "ident_string compose (IPAddressId a p) = compose a p"

text \<open>Modelled from the spec: no duplicate identifiers within one snapshot.\<close>

definition wf_snapshot :: "snapshot \<Rightarrow> bool" where
  "wf_snapshot S = distinct (map entity_ident S)"

text \<open>Modelled from the spec: the record a snapshot holds under an identifier.\<close>

definition lookup :: "snapshot \<Rightarrow> ident \<Rightarrow> entity option" where
  "lookup S i = find (\<lambda>e. entity_ident e = i) S"

text \<open>
  Modelled from the spec: absent and the empty string are the same canonical absence
  marker when attributes are compared.
\<close>

definition canon :: "string option \<Rightarrow> string option" where
  "canon v = (if v = Some [] then None else v)"

text \<open>
  Modelled from the spec: the tracked attributes of a record are those its class
  declares, read from the record by name.
\<close>

fun tracked_attributes :: "entity \<Rightarrow> string list" where
  "tracked_attributes (NetworkEntity n) = Network_attributes"
| "tracked_attributes (IPAddressEntity a) = IPAddress_attributes"

fun attr_value :: "entity \<Rightarrow> string \<Rightarrow> string option" where
  "attr_value (NetworkEntity n) f = (case Network_getattr n f of Some v \<Rightarrow> v | None \<Rightarrow> None)"
| "attr_value (IPAddressEntity a) f = (case IPAddress_getattr a f of Some v \<Rightarrow> v | None \<Rightarrow> None)"

text \<open>
  Modelled from the spec: the field-by-field comparison of step 4. Each tracked
  attribute that differs after normalisation gives one change, with the target's (old)
  and the source's (new) value.
\<close>

definition changed_fields :: "entity \<Rightarrow> entity \<Rightarrow> change list" where
  "changed_fields src tgt =
     map (\<lambda>f. Change f (attr_value tgt f) (attr_value src f))
       (filter (\<lambda>f. canon (attr_value tgt f) \<noteq> canon (attr_value src f)) (tracked_attributes src))"

text \<open>
  Modelled from the spec: steps 2 to 4 for one identifier. Only in the source: a create
  with the source record; only in the target: a delete with the identifier; in both: an
  update with the changed fields, or nothing when none differs.
\<close>

definition diff_ident :: "snapshot \<Rightarrow> snapshot \<Rightarrow> ident \<Rightarrow> operation list" where
  "diff_ident A B i =
     (case lookup A i of
        Some a \<Rightarrow>
          (case lookup B i of
             None \<Rightarrow> [Create a]
           | Some b \<Rightarrow> (if changed_fields a b = [] then [] else [Update i (changed_fields a b)]))
      | None \<Rightarrow>
          (case lookup B i of
             None \<Rightarrow> []
           | Some b \<Rightarrow> [Delete i]))"

text \<open>
  Modelled from the spec: step 1 and the order within a kind. The identifiers of one
  kind on either side, ascending by identifier string.
\<close>

definition kind_idents ::
  "(string \<Rightarrow> string \<Rightarrow> string) \<Rightarrow> kind \<Rightarrow> snapshot \<Rightarrow> snapshot \<Rightarrow> ident list" where
  "kind_idents compose K A B =
     sort_key (ident_string compose)
       (filter (\<lambda>i. ident_kind i = K) (remdups (map entity_ident A @ map entity_ident B)))"

text \<open>Modelled from the spec: the operations of one kind, in that order.\<close>

definition diff_kind ::
  "(string \<Rightarrow> string \<Rightarrow> string) \<Rightarrow> kind \<Rightarrow> snapshot \<Rightarrow> snapshot \<Rightarrow> operation list" where
  "diff_kind compose K A B = concat (map (diff_ident A B) (kind_idents compose K A B))"

text \<open>Modelled from the spec: whether an operation is a delete.\<close>

fun is_delete :: "operation \<Rightarrow> bool" where
  "is_delete (Delete i) = True"
| "is_delete _ = False"

text \<open>
  Modelled from the spec: the ordering policy. Creates and updates of Networks come
  before every IPAddress operation, and deletes of Networks after them.
\<close>

definition reconcile ::
  "(string \<Rightarrow> string \<Rightarrow> string) \<Rightarrow> snapshot \<Rightarrow> snapshot \<Rightarrow> operation list" where
  "reconcile compose A B =
     (let net_ops = diff_kind compose NetworkKind A B;
          ip_ops = diff_kind compose IPAddressKind A B
      in filter (\<lambda>x. \<not> is_delete x) net_ops @ ip_ops @ filter is_delete net_ops)"

text \<open>
  Modelled from the spec: the unchanged count of a kind, the identifiers present on
  both sides for which nothing is emitted.
\<close>

definition unchanged_count ::
  "(string \<Rightarrow> string \<Rightarrow> string) \<Rightarrow> kind \<Rightarrow> snapshot \<Rightarrow> snapshot \<Rightarrow> nat" where
  "unchanged_count compose K A B =
     length (filter (\<lambda>i. lookup A i \<noteq> None \<and> lookup B i \<noteq> None \<and> diff_ident A B i = [])
               (kind_idents compose K A B))"

text \<open>
  Modelled from the spec: what an applied operation does to the target snapshot. A create
  adds the record (and leaves an existing one alone), an update writes the new value of
  each changed field, a delete removes the record.
\<close>

fun set_attr :: "string \<Rightarrow> string option \<Rightarrow> entity \<Rightarrow> entity" where
  "set_attr f v (NetworkEntity n) = NetworkEntity n"
| "set_attr f v (IPAddressEntity a) =
     (if f = ''status'' then IPAddressEntity (a\<lparr>status := v\<rparr>)
      else if f = ''dns_name'' then IPAddressEntity (a\<lparr>dns_name := v\<rparr>)
      else IPAddressEntity a)"

fun apply_change :: "entity \<Rightarrow> change \<Rightarrow> entity" where
  "apply_change e (Change f old new) = set_attr f new e"

fun apply_operation :: "snapshot \<Rightarrow> operation \<Rightarrow> snapshot" where
  "apply_operation S (Create e) =
     (if lookup S (entity_ident e) = None then S @ [e] else S)"
| "apply_operation S (Update i chs) =
     map (\<lambda>e. if entity_ident e = i then foldl apply_change e chs else e) S"
| "apply_operation S (Delete i) = filter (\<lambda>e. entity_ident e \<noteq> i) S"

definition apply_operations :: "operation list \<Rightarrow> snapshot \<Rightarrow> snapshot" where
  "apply_operations ops S = foldl apply_operation S ops"

section \<open>Vocabulary of the properties\<close>

subsection \<open>Dotted quads\<close>

text \<open>
  An octet is a decimal numeral of one to three digits with value at most 255 (leading
  zeros count as digits, as in the pattern); a dotted quad is four octets separated by
  dots.
\<close>

definition is_octet :: "string \<Rightarrow> bool" where
  "is_octet w = (1 \<le> length w \<and> length w \<le> 3 \<and> list_all is_digit w \<and> dec_val w \<le> 255)"

definition is_dotted_quad :: "string \<Rightarrow> bool" where
  "is_dotted_quad m = (\<exists>a b c d. m = a @ ''.'' @ b @ ''.'' @ c @ ''.'' @ d
      \<and> is_octet a \<and> is_octet b \<and> is_octet c \<and> is_octet d)"

definition contains_dotted_quad :: "string \<Rightarrow> bool" where
  "contains_dotted_quad s = (\<exists>p m t. s = p @ m @ t \<and> is_dotted_quad m)"

text \<open>The language of a pattern: the strings it matches as a whole.\<close>

fun lang :: "regex \<Rightarrow> string set" where
  "lang Eps = {[]}"
| "lang (Cls cs) = {[c] | c. c \<in> set cs}"
| "lang (Seq r1 r2) = {p @ q | p q. p \<in> lang r1 \<and> q \<in> lang r2}"
| "lang (Alt r1 r2) = lang r1 \<union> lang r2"
| "lang (Opt r) = insert [] (lang r)"

subsection \<open>Requests the client issues\<close>

definition network_lookup_request :: "InfobloxApi \<Rightarrow> string \<Rightarrow> request" where
  "network_lookup_request api net =
     build_request api ''GET'' (JStr ''network'') [(''network'', JStr net)] None"

definition fixedaddress_request :: "InfobloxApi \<Rightarrow> json \<Rightarrow> string \<Rightarrow> request" where
  "fixedaddress_request api ip mac_address =
     build_request api ''POST'' (JStr ''fixedaddress'')
       [(''_return_fields'', JStr ''ipv4addr''), (''_return_as_object'', JInt 1)]
       (Some (JObj [(''ipv4addr'', ip), (''mac'', JStr mac_address)]))"

definition ptr_request :: "InfobloxApi \<Rightarrow> string \<Rightarrow> string \<Rightarrow> string \<Rightarrow> request" where
  "ptr_request api name fqdn ip_address =
     build_request api ''POST'' (JStr ''record:ptr'')
       [(''_return_fields'', JStr ''name,ptrdname,ipv4addr''), (''_return_as_object'', JInt 1)]
       (Some (JObj [(''name'', JStr name), (''ptrdname'', JStr fqdn), (''ipv4addr'', JStr ip_address)]))"

text \<open>The reverse-DNS name of an address without the trailing root dot.\<close>

definition reverse_pointer :: "string \<Rightarrow> string" where
  "reverse_pointer ip = join_on ''.'' (rev (split_on CHR ''.'' ip)) @ ''.in-addr.arpa''"

subsection \<open>Operations\<close>

fun op_ident :: "operation \<Rightarrow> ident" where
  "op_ident (Create e) = entity_ident e"
| "op_ident (Update i chs) = i"
| "op_ident (Delete i) = i"

fun op_step :: "operation \<Rightarrow> entity option \<Rightarrow> entity option" where
  "op_step (Create e) l = (case l of None \<Rightarrow> Some e | Some y \<Rightarrow> Some y)"
| "op_step (Update i chs) l = map_option (\<lambda>e. foldl apply_change e chs) l"
| "op_step (Delete i) l = None"

definition only_source :: "snapshot \<Rightarrow> snapshot \<Rightarrow> ident \<Rightarrow> bool" where
  "only_source A B i = (lookup A i \<noteq> None \<and> lookup B i = None)"

definition only_target :: "snapshot \<Rightarrow> snapshot \<Rightarrow> ident \<Rightarrow> bool" where
  "only_target A B i = (lookup A i = None \<and> lookup B i \<noteq> None)"

definition differing :: "snapshot \<Rightarrow> snapshot \<Rightarrow> ident \<Rightarrow> bool" where
  "differing A B i = (case lookup A i of None \<Rightarrow> False
     | Some a \<Rightarrow> (case lookup B i of None \<Rightarrow> False | Some b \<Rightarrow> changed_fields a b \<noteq> []))"

definition create_of :: "snapshot \<Rightarrow> ident \<Rightarrow> operation" where
  "create_of A i = Create (the (lookup A i))"

definition update_of :: "snapshot \<Rightarrow> snapshot \<Rightarrow> ident \<Rightarrow> operation" where
  "update_of A B i = Update i (changed_fields (the (lookup A i)) (the (lookup B i)))"

subsection \<open>Example inputs\<close>

definition demo_appliance :: "nat \<Rightarrow> json option \<Rightarrow> appliance" where
  \<comment> \<open>An appliance that knows one network and answers the fixed-address request with
      the given status code and body.\<close>
  "demo_appliance fixed_status fixed_body hist r =
     (if req_path r = JStr ''network'' then
        Inr \<lparr>status_code = 200, ibapauth_cookies = [],
             body = Some (JList [JObj [(''_ref'', JStr ''network/ZG5z:10.220.0.0/22/default''),
                                       (''network'', JStr ''10.220.0.0/22'')]])\<rparr>
      else if req_path r = JStr ''network/ZG5z:10.220.0.0/22/default'' then
        Inr \<lparr>status_code = 200, ibapauth_cookies = [],
             body = Some (JObj [(''ips'', JList [JStr ''10.220.0.1''])])\<rparr>
      else if req_path r = JStr ''fixedaddress'' then
        Inr \<lparr>status_code = fixed_status, ibapauth_cookies = [], body = fixed_body\<rparr>
      else Inl (RequestException ''no route''))"

definition reserved_body :: json where
  "reserved_body = JObj [(''result'', JObj [(''_ref'', JStr ''fixedaddress/ZG5z:10.220.0.1''),
                                            (''ipv4addr'', JStr ''10.220.0.1'')])]"

definition unreachable_appliance :: appliance where
  "unreachable_appliance hist r = Inl (RequestException ''connection refused'')"

definition empty_appliance :: appliance where
  \<comment> \<open>Every request is answered with an empty JSON list.\<close>
  "empty_appliance hist r = Inr \<lparr>status_code = 200, ibapauth_cookies = [], body = Some (JList [])\<rparr>"

definition demo_api :: InfobloxApi where
  "demo_api = \<lparr>url = ''https://infoblox.example'', username = ''admin'', password = ''secret'',
               verify_ssl = True, cookie = None, sent = []\<rparr>"

definition joined :: "string \<Rightarrow> string \<Rightarrow> string" where
  "joined a p = a @ ''__'' @ p"

definition example_source :: snapshot where
  "example_source =
     [NetworkEntity \<lparr>network = ''10.1.0.0/16''\<rparr>, NetworkEntity \<lparr>network = ''10.0.0.0/8''\<rparr>,
      IPAddressEntity \<lparr>address = ''10.0.0.2'', prefix = ''10.0.0.0/8'',
                       status = Some ''active'', dns_name = None\<rparr>,
      IPAddressEntity \<lparr>address = ''10.0.0.1'', prefix = ''10.0.0.0/8'',
                       status = None, dns_name = Some ''a.test''\<rparr>,
      IPAddressEntity \<lparr>address = ''10.0.0.3'', prefix = ''10.0.0.0/8'',
                       status = None, dns_name = Some ''''\<rparr>]"

definition example_target :: snapshot where
  "example_target =
     [NetworkEntity \<lparr>network = ''10.0.0.0/8''\<rparr>, NetworkEntity \<lparr>network = ''10.0.9.0/24''\<rparr>,
      IPAddressEntity \<lparr>address = ''10.0.0.1'', prefix = ''10.0.0.0/8'',
                       status = Some ''reserved'', dns_name = Some ''a.test''\<rparr>,
      IPAddressEntity \<lparr>address = ''10.0.0.3'', prefix = ''10.0.0.0/8'',
                       status = None, dns_name = None\<rparr>,
      IPAddressEntity \<lparr>address = ''10.0.0.0'', prefix = ''10.0.0.0/8'',
                       status = None, dns_name = None\<rparr>]"

section \<open>Properties of the data model\<close>

lemma Network_eq_iff: "((n::Network) = n') = (network n = network n')"
  by (cases n, cases n') simp

text \<open>
  Claim C2. A Network is identified by its \<open>network\<close> string alone and has no tracked
  attribute, so two Networks with the same identifier are the same record; an IPAddress
  is identified by the pair (address, prefix) alone and its tracked attributes are
  exactly \<open>status\<close> and \<open>dns_name\<close>, each of which may be \<open>None\<close>.
\<close>

theorem data_model_identifiers_and_attributes:
  fixes n n' :: Network and a a' :: IPAddress
  shows "Network_get_identifiers n = [(''network'', Some (Some (network n)))]
   \<and> Network_get_attrs n = []
   \<and> (Network_get_identifiers n = Network_get_identifiers n') = (network n = network n')
   \<and> (Network_get_identifiers n = Network_get_identifiers n') = (n = n')
   \<and> IPAddress_get_identifiers a =
         [(''address'', Some (Some (address a))), (''prefix'', Some (Some (prefix a)))]
   \<and> IPAddress_get_attrs a = [(''status'', Some (status a)), (''dns_name'', Some (dns_name a))]
   \<and> (IPAddress_get_identifiers a = IPAddress_get_identifiers a')
         = (address a = address a' \<and> prefix a = prefix a')
   \<and> (IPAddress_get_attrs a = IPAddress_get_attrs a')
         = (status a = status a' \<and> dns_name a = dns_name a')
   \<and> IPAddress_get_attrs (a\<lparr>status := None, dns_name := None\<rparr>)
         = [(''status'', Some None), (''dns_name'', Some None)]"
  by (simp add: Network_get_identifiers_def Network_get_attrs_def Network_identifiers_def
      Network_attributes_def Network_getattr_def IPAddress_get_identifiers_def
      IPAddress_get_attrs_def IPAddress_identifiers_def IPAddress_attributes_def
      IPAddress_getattr_def Network_eq_iff)

section \<open>The DHCP lease lookup\<close>

lemma bt_lang: "set (bt r s) = {t. \<exists>p. p \<in> lang r \<and> s = p @ t}"
proof (induction r arbitrary: s)
  case Eps show ?case by auto
next
  case (Cls cs) show ?case by (cases s) auto
next
  case (Seq r1 r2)
  show ?case
    apply (auto simp: Seq)
     apply (metis append.assoc)
    by (metis append.assoc)
next
  case (Alt r1 r2) show ?case by (auto simp: Alt)
next
  case (Opt r) show ?case by (auto simp: Opt)
qed

lemma findall_nonempty:
  "(findall r 0 s \<noteq> []) = (\<exists>p u. s = p @ u \<and> bt r u \<noteq> [])"
proof (induction s)
  case Nil show ?case by simp
next
  case (Cons c t)
  show ?case
  proof (cases "bt r (c # t)")
    case Nil
    have "(\<exists>p u. c # t = p @ u \<and> bt r u \<noteq> []) = (\<exists>p u. t = p @ u \<and> bt r u \<noteq> [])"
      apply (rule iffI)
       apply (metis Nil append_eq_Cons_conv)
      by (metis append_Cons)
    then show ?thesis using Nil Cons by simp
  next
    case (Cons a list)
    then show ?thesis by (auto simp: Let_def intro: exI[of _ "[]"])
  qed
qed

lemma digit_cases:
  "is_digit c = (c = CHR ''0'' \<or> c = CHR ''1'' \<or> c = CHR ''2'' \<or> c = CHR ''3'' \<or> c = CHR ''4''
     \<or> c = CHR ''5'' \<or> c = CHR ''6'' \<or> c = CHR ''7'' \<or> c = CHR ''8'' \<or> c = CHR ''9'')"
  by (auto simp: is_digit_def)

lemma cls_01: "(c \<in> set ''01'') = (is_digit c \<and> digit_val c \<le> 1)"
  by (auto simp: digit_cases digit_val_def)
lemma cls_04: "(c \<in> set ''01234'') = (is_digit c \<and> digit_val c \<le> 4)"
  by (auto simp: digit_cases digit_val_def)
lemma cls_05: "(c \<in> set ''012345'') = (is_digit c \<and> digit_val c \<le> 5)"
  by (auto simp: digit_cases digit_val_def)
lemma cls_2: "(c \<in> set ''2'') = (is_digit c \<and> digit_val c = 2)"
  by (auto simp: digit_cases digit_val_def)
lemma cls_5: "(c \<in> set ''5'') = (is_digit c \<and> digit_val c = 5)"
  by (auto simp: digit_cases digit_val_def)
lemma cls_digit: "(c \<in> set ''0123456789'') = is_digit c"
  by (simp add: is_digit_def)
lemma digit_val_le: "is_digit c \<Longrightarrow> digit_val c \<le> 9"
  by (auto simp: digit_cases digit_val_def)

lemma in_lang_Cls: "(w \<in> lang (Cls cs)) = (\<exists>c. w = [c] \<and> c \<in> set cs)"
  by auto
lemma in_lang_Seq_Cls:
  "(w \<in> lang (Seq (Cls cs) r)) = (\<exists>c q. w = c # q \<and> c \<in> set cs \<and> q \<in> lang r)"
proof
  assume "w \<in> lang (Seq (Cls cs) r)"
  then show "\<exists>c q. w = c # q \<and> c \<in> set cs \<and> q \<in> lang r" by auto
next
  assume "\<exists>c q. w = c # q \<and> c \<in> set cs \<and> q \<in> lang r"
  then obtain c q where w: "w = c # q" "c \<in> set cs" "q \<in> lang r" by blast
  have "w = [c] @ q" and "[c] \<in> lang (Cls cs)" using w by simp_all
  then show "w \<in> lang (Seq (Cls cs) r)" using w(3) unfolding lang.simps(3) by blast
qed
lemma in_lang_Seq_Opt:
  "(w \<in> lang (Seq (Opt r1) r2)) = (w \<in> lang r2 \<or> w \<in> lang (Seq r1 r2))"
  by auto
lemma in_lang_Opt: "(w \<in> lang (Opt r)) = (w = [] \<or> w \<in> lang r)"
  by auto
lemma in_lang_Alt: "(w \<in> lang (Alt r1 r2)) = (w \<in> lang r1 \<or> w \<in> lang r2)"
  by auto

lemma lang_octet_shape:
  "(w \<in> lang octet) =
     ((\<exists>a. w = [a] \<and> is_digit a)
      \<or> (\<exists>a b. w = [a, b] \<and> is_digit a \<and> is_digit b)
      \<or> (\<exists>a b c. w = [a, b, c] \<and> is_digit a \<and> is_digit b \<and> is_digit c
            \<and> (digit_val a \<le> 1 \<or> digit_val a = 2 \<and>
                 (digit_val b \<le> 4 \<or> digit_val b = 5 \<and> digit_val c \<le> 5))))"
  unfolding octet_def digit_def in_lang_Alt in_lang_Seq_Opt in_lang_Seq_Cls in_lang_Opt in_lang_Cls
    cls_01 cls_04 cls_05 cls_2 cls_5 cls_digit
  by (cases w rule: list.exhaust; auto)

lemma is_octet_shape:
  "is_octet w =
     ((\<exists>a. w = [a] \<and> is_digit a)
      \<or> (\<exists>a b. w = [a, b] \<and> is_digit a \<and> is_digit b)
      \<or> (\<exists>a b c. w = [a, b, c] \<and> is_digit a \<and> is_digit b \<and> is_digit c
            \<and> (digit_val a \<le> 1 \<or> digit_val a = 2 \<and>
                 (digit_val b \<le> 4 \<or> digit_val b = 5 \<and> digit_val c \<le> 5))))"
proof (cases w)
  case Nil then show ?thesis by (simp add: is_octet_def)
next
  case (Cons a w1)
  show ?thesis
  proof (cases w1)
    case Nil
    then show ?thesis using Cons digit_val_le[of a] by (auto simp: is_octet_def dec_val_def)
  next
    case (Cons b w2)
    note c2 = Cons
    show ?thesis
    proof (cases w2)
      case Nil
      then show ?thesis using \<open>w = a # w1\<close> c2 digit_val_le[of a] digit_val_le[of b]
        by (auto simp: is_octet_def dec_val_def)
    next
      case (Cons c w3)
      show ?thesis
      proof (cases w3)
        case Nil
        then show ?thesis
          using \<open>w = a # w1\<close> c2 Cons digit_val_le[of a] digit_val_le[of b] digit_val_le[of c]
          by (auto simp: is_octet_def dec_val_def)
      next
        case (Cons d w4)
        then show ?thesis using \<open>w = a # w1\<close> c2 \<open>w2 = c # w3\<close>
          by (auto simp: is_octet_def)
      qed
    qed
  qed
qed

lemma lang_octet: "(w \<in> lang octet) = is_octet w"
  by (simp only: lang_octet_shape is_octet_shape)


lemma in_lang_Seq: "(w \<in> lang (Seq r1 r2)) = (\<exists>p q. w = p @ q \<and> p \<in> lang r1 \<and> q \<in> lang r2)"
  by auto

lemma lang_octet_dot:
  "(w \<in> lang (Seq octet (Cls ''.''))) = (\<exists>a. w = a @ ''.'' \<and> is_octet a)"
  by (auto simp: in_lang_Seq lang_octet in_lang_Cls)

lemma lang_ipv4_pattern: "(m \<in> lang ipv4_pattern) = is_dotted_quad m"
proof -
  let ?X = "Seq octet (Cls ''.'')"
  have three: "rep 3 r = Seq r (Seq r (Seq r Eps))" for r
    by (simp add: numeral_3_eq_3)
  show ?thesis
  proof
    assume "m \<in> lang ipv4_pattern"
    then obtain p d where m: "m = p @ d" and p: "p \<in> lang (Seq ?X (Seq ?X (Seq ?X Eps)))"
      and d: "is_octet d"
      unfolding ipv4_pattern_def three in_lang_Seq[of m] lang_octet by blast
    from p obtain x p1 where p1: "p = x @ p1" "x \<in> lang ?X" "p1 \<in> lang (Seq ?X (Seq ?X Eps))"
      unfolding in_lang_Seq[of p] by blast
    from p1(3) obtain y p2 where p2: "p1 = y @ p2" "y \<in> lang ?X" "p2 \<in> lang (Seq ?X Eps)"
      unfolding in_lang_Seq[of p1] by blast
    from p2(3) have z: "p2 \<in> lang ?X" by simp
    from p1(2) obtain a where a: "x = a @ ''.''" "is_octet a" unfolding lang_octet_dot by blast
    from p2(2) obtain b where b: "y = b @ ''.''" "is_octet b" unfolding lang_octet_dot by blast
    from z obtain c where c: "p2 = c @ ''.''" "is_octet c" unfolding lang_octet_dot by blast
    have "m = a @ ''.'' @ b @ ''.'' @ c @ ''.'' @ d"
      using m p1(1) p2(1) a(1) b(1) c(1) by simp
    then show "is_dotted_quad m" unfolding is_dotted_quad_def using a(2) b(2) c(2) d by blast
  next
    assume "is_dotted_quad m"
    then obtain a b c d where m: "m = a @ ''.'' @ b @ ''.'' @ c @ ''.'' @ d"
      and o: "is_octet a" "is_octet b" "is_octet c" "is_octet d"
      unfolding is_dotted_quad_def by blast
    have x: "a @ ''.'' \<in> lang ?X" and y: "b @ ''.'' \<in> lang ?X" and z: "c @ ''.'' \<in> lang ?X"
      using o unfolding lang_octet_dot by blast+
    have z': "c @ ''.'' \<in> lang (Seq ?X Eps)" using z by simp
    have yz: "(b @ ''.'') @ (c @ ''.'') \<in> lang (Seq ?X (Seq ?X Eps))"
      using y z' unfolding in_lang_Seq[of _ ?X "Seq ?X Eps"] by blast
    have xyz: "(a @ ''.'') @ (b @ ''.'') @ (c @ ''.'') \<in> lang (Seq ?X (Seq ?X (Seq ?X Eps)))"
      using x yz unfolding in_lang_Seq[of _ ?X "Seq ?X (Seq ?X Eps)"] by blast
    have "((a @ ''.'') @ (b @ ''.'') @ (c @ ''.'')) @ d \<in> lang ipv4_pattern"
      unfolding ipv4_pattern_def three in_lang_Seq[of _ "Seq ?X (Seq ?X (Seq ?X Eps))" octet]
      using xyz o(4) lang_octet by blast
    then show "m \<in> lang ipv4_pattern" using m by simp
  qed
qed

lemma findall_ipv4_nonempty:
  "(findall ipv4_pattern 0 s \<noteq> []) = contains_dotted_quad s"
proof -
  have "(bt ipv4_pattern u \<noteq> []) = (\<exists>m t. u = m @ t \<and> is_dotted_quad m)" for u
  proof -
    have "(bt ipv4_pattern u \<noteq> []) = (set (bt ipv4_pattern u) \<noteq> {})" by simp
    also have "\<dots> = (\<exists>m t. u = m @ t \<and> is_dotted_quad m)"
      unfolding bt_lang lang_ipv4_pattern by blast
    finally show ?thesis .
  qed
  then show ?thesis
    unfolding findall_nonempty contains_dotted_quad_def by blast
qed

lemma sent_api_request:
  "sent (snd (api_request W m p ps js api)) = sent api @ [build_request api m p ps js]"
  by (simp add: api_request_def Let_def split: sum.splits)

lemma sent_from_ipv4: "sent (snd (get_dhcp_lease_from_ipv4 W s api)) \<noteq> sent api"
proof -
  have "sent (snd (get_dhcp_lease_from_ipv4 W s api))
        = sent (snd (api_request W ''GET'' (JStr ''lease'')
             [(''address'', JStr s),
              (''_return_fields'', JStr ''binding_state,hardware,client_hostname,fingerprint''),
              (''_return_as_object'', JInt 1)] None api))"
    by (simp add: get_dhcp_lease_from_ipv4_def split: prod.splits sum.splits)
  then show ?thesis by (simp add: sent_api_request)
qed

lemma sent_from_hostname: "sent (snd (get_dhcp_lease_from_hostname W s api)) \<noteq> sent api"
proof -
  have "sent (snd (get_dhcp_lease_from_hostname W s api))
        = sent (snd (api_request W ''GET'' (JStr ''lease'')
             [(''client_hostname'', JStr s),
              (''_return_fields'', JStr ''binding_state,hardware,client_hostname,fingerprint''),
              (''_return_as_object'', JInt 1)] None api))"
    by (simp add: get_dhcp_lease_from_hostname_def split: prod.splits sum.splits)
  then show ?thesis by (simp add: sent_api_request)
qed

text \<open>
  Claim C8. For every input string \<open>get_dhcp_lease\<close> issues no request (the object
  state, with its list of issued requests, is returned as it was) and returns a
  one-element list holding a hard-coded record: the record with binding state ACTIVE
  exactly when the input contains a dotted quad, the record with binding state STATIC
  otherwise. Both \<open>get_dhcp_lease_from_ipv4\<close> and \<open>get_dhcp_lease_from_hostname\<close> issue
  a request, so neither is called.
\<close>

theorem get_dhcp_lease_demo_data:
  "get_dhcp_lease s api =
     (Inr (if contains_dotted_quad s
           then JList [JObj
              [(''_ref'', JStr ''lease/ZG5zLmxlYXNlJDQvMTcyLjE2LjIwMC4xMDEvMC8:172.26.1.250/default1''),
               (''binding_state'', JStr ''ACTIVE''),
               (''fingerprint'', JStr ''Cisco/Linksys SPA series IP Phone''),
               (''hardware'', JStr ''16:55:a4:1b:98:c9'')]]
           else JList [JObj
              [(''_ref'', JStr ''lease/ZG5zLmxlYXNlJC8xOTIuMTY4LjQuMy8wLzE3:192.168.4.3/Company%201''),
               (''binding_state'', JStr ''STATIC''),
               (''client_hostname'', JStr ''test''),
               (''hardware'', JStr ''12:34:56:78:91:23'')]]), api)
   \<and> (\<exists>record. fst (get_dhcp_lease s api) = Inr (JList [record])
         \<and> py_get record ''binding_state''
             = Inr (JStr (if contains_dotted_quad s then ''ACTIVE'' else ''STATIC'')))
   \<and> sent (snd (get_dhcp_lease s api)) = sent api
   \<and> snd (get_dhcp_lease s api) \<noteq> snd (get_dhcp_lease_from_ipv4 W s api)
   \<and> snd (get_dhcp_lease s api) \<noteq> snd (get_dhcp_lease_from_hostname W s api)"
proof -
  have r: "get_dhcp_lease s api =
     (Inr (if contains_dotted_quad s
           then JList [JObj
              [(''_ref'', JStr ''lease/ZG5zLmxlYXNlJDQvMTcyLjE2LjIwMC4xMDEvMC8:172.26.1.250/default1''),
               (''binding_state'', JStr ''ACTIVE''),
               (''fingerprint'', JStr ''Cisco/Linksys SPA series IP Phone''),
               (''hardware'', JStr ''16:55:a4:1b:98:c9'')]]
           else JList [JObj
              [(''_ref'', JStr ''lease/ZG5zLmxlYXNlJC8xOTIuMTY4LjQuMy8wLzE3:192.168.4.3/Company%201''),
               (''binding_state'', JStr ''STATIC''),
               (''client_hostname'', JStr ''test''),
               (''hardware'', JStr ''12:34:56:78:91:23'')]]), api)"
    using findall_ipv4_nonempty[of s] by (simp add: get_dhcp_lease_def Let_def)
  have e: "\<exists>record. fst (get_dhcp_lease s api) = Inr (JList [record])
         \<and> py_get record ''binding_state''
             = Inr (JStr (if contains_dotted_quad s then ''ACTIVE'' else ''STATIC''))"
    unfolding r by (cases "contains_dotted_quad s") (simp_all add: py_get_def)
  have a: "api \<noteq> snd (get_dhcp_lease_from_ipv4 W s api)"
    using sent_from_ipv4[of W s api] by auto
  have h: "api \<noteq> snd (get_dhcp_lease_from_hostname W s api)"
    using sent_from_hostname[of W s api] by auto
  have s: "snd (get_dhcp_lease s api) = api" unfolding r by simp
  show ?thesis using r e a h unfolding s by blast
qed

lemma get_dhcp_lease_examples:
  "(\<exists>r. fst (get_dhcp_lease ''192.168.0.1'' api) = Inr (JList [r])
        \<and> py_get r ''binding_state'' = Inr (JStr ''ACTIVE''))
   \<and> (\<exists>r. fst (get_dhcp_lease ''lease of 10.223.9.96, renewed'' api) = Inr (JList [r])
        \<and> py_get r ''binding_state'' = Inr (JStr ''ACTIVE''))
   \<and> (\<exists>r. fst (get_dhcp_lease ''testdevice1.test'' api) = Inr (JList [r])
        \<and> py_get r ''binding_state'' = Inr (JStr ''STATIC''))
   \<and> (\<exists>r. fst (get_dhcp_lease ''256.300.1'' api) = Inr (JList [r])
        \<and> py_get r ''binding_state'' = Inr (JStr ''STATIC''))"
  by (simp add: get_dhcp_lease_def ipv4_pattern_def octet_def digit_def Let_def numeral_3_eq_3
      py_get_def)


section \<open>Next available address and reservation\<close>

lemma sent_find_network_reference:
  "sent (snd (find_network_reference W net api)) = sent api @ [network_lookup_request api net]"
proof -
  have "sent (snd (find_network_reference W net api))
        = sent (snd (api_request W ''GET'' (JStr ''network'') [(''network'', JStr net)] None api))"
    by (simp add: find_network_reference_def split: prod.splits sum.splits)
  then show ?thesis by (simp add: sent_api_request network_lookup_request_def)
qed

lemma find_next_lookup_raises:
  "find_network_reference W net api = (Inl e, api1)
   \<Longrightarrow> find_next_available_ip W net api = (Inr (JStr ''''), api1)"
  by (simp add: find_next_available_ip_def)

lemma find_next_lookup_not_list:
  "find_network_reference W net api = (Inr v, api1) \<Longrightarrow> \<not> (truthy v \<and> is_list v)
   \<Longrightarrow> find_next_available_ip W net api = (Inr (JStr ''''), api1)"
  by (auto simp add: find_next_available_ip_def)

lemma reserve_falsy:
  "find_next_available_ip W net api = (Inr ip, api1) \<Longrightarrow> \<not> truthy ip
   \<Longrightarrow> reserve_fixed_address W net mac api = (Inr (JBool False), api1)"
  by (simp add: reserve_fixed_address_def)

lemma reserve_truthy_sent:
  assumes "find_next_available_ip W net api = (Inr ip, api1)" and "truthy ip"
  shows "sent (snd (reserve_fixed_address W net mac api))
         = sent api1 @ [fixedaddress_request api1 ip mac]"
proof -
  have "sent (snd (reserve_fixed_address W net mac api))
        = sent (snd (api_request W ''POST'' (JStr ''fixedaddress'')
                    [(''_return_fields'', JStr ''ipv4addr''), (''_return_as_object'', JInt 1)]
                    (Some (JObj [(''ipv4addr'', ip), (''mac'', JStr mac)])) api1))"
    using assms by (simp add: reserve_fixed_address_def split: prod.splits sum.splits)
  then show ?thesis by (simp add: sent_api_request fixedaddress_request_def)
qed

lemma reserve_truthy_outcome:
  assumes "find_next_available_ip W net api = (Inr ip, api1)" and "truthy ip"
  shows "fst (reserve_fixed_address W net mac api) =
     (case W (sent api1) (fixedaddress_request api1 ip mac) of
        Inl e \<Rightarrow> Inl e
      | Inr resp \<Rightarrow>
          if 400 \<le> status_code resp \<and> status_code resp < 600
          then Inl (HTTPError (status_code resp))
          else (case body resp of
                  None \<Rightarrow> Inl JSONDecodeError
                | Some j \<Rightarrow> (case py_get j ''result'' of
                              Inl e \<Rightarrow> Inl e
                            | Inr res \<Rightarrow> py_get res ''ipv4addr'')))"
  using assms
  by (simp add: reserve_fixed_address_def api_request_def fixedaddress_request_def Let_def
      response_json_def split: sum.splits option.splits)

lemma reserve_propagates:
  "find_next_available_ip W net api = (Inl e, api1)
   \<Longrightarrow> reserve_fixed_address W net mac api = (Inl e, api1)"
  by (simp add: reserve_fixed_address_def)

lemmas api_eval = find_next_available_ip_def find_network_reference_def api_request_def
  build_request_def cookie_truthy_def response_json_def py_get_def py_index0_def truthy_def
  is_list_def Let_def demo_api_def reserve_fixed_address_def network_lookup_request_def
  fixedaddress_request_def

lemma demo_lookup_unreachable:
  "find_network_reference unreachable_appliance ''10.220.0.0/22'' demo_api
   = (Inl (RequestException ''connection refused''),
      demo_api\<lparr>sent := [network_lookup_request demo_api ''10.220.0.0/22'']\<rparr>)"
  by (simp add: api_eval unreachable_appliance_def)

lemma demo_lookup_empty:
  "find_network_reference empty_appliance ''10.220.0.0/22'' demo_api
   = (Inr (JList []),
      demo_api\<lparr>cookie := Some [], sent := [network_lookup_request demo_api ''10.220.0.0/22'']\<rparr>)"
  by (simp add: api_eval empty_appliance_def)

lemma demo_find_next:
  "fst (find_next_available_ip (demo_appliance k b) ''10.220.0.0/22'' demo_api)
   = Inr (JStr ''10.220.0.1'')"
  by (simp add: api_eval demo_appliance_def)

lemma demo_fixedaddress_response:
  "demo_appliance k b
     (sent (snd (find_next_available_ip (demo_appliance k b) ''10.220.0.0/22'' demo_api)))
     (fixedaddress_request
        (snd (find_next_available_ip (demo_appliance k b) ''10.220.0.0/22'' demo_api))
        (JStr ''10.220.0.1'') ''aa:bb:cc:dd:ee:ff'')
   = Inr \<lparr>status_code = k, ibapauth_cookies = [], body = b\<rparr>"
  by (simp add: api_eval demo_appliance_def)

text \<open>
  Claim C9, as amended. \<open>find_next_available_ip\<close> returns the empty string, having
  issued the network lookup request only, when the lookup raises or does not return a
  non-empty list. \<open>reserve_fixed_address\<close> returns \<open>False\<close> and issues no further
  request when \<open>find_next_available_ip\<close> returns a falsy value, and passes on an
  exception that \<open>find_next_available_ip\<close> raises. When \<open>find_next_available_ip\<close>
  returns a truthy value the fixed-address request is issued with that value and the
  MAC address, and the outcome is decided by the answer alone: the transport's exception
  if the request cannot be made; \<open>HTTPError\<close> for a status from 400 to 599;
  \<open>JSONDecodeError\<close> for a body that is no JSON; \<open>AttributeError\<close> for a body that is
  no object or whose \<open>result\<close> is no object; and otherwise the \<open>ipv4addr\<close> entry of the
  body's \<open>result\<close> (\<open>None\<close> when it has none) is returned.
\<close>

theorem next_available_ip_and_reservation:
  "(find_network_reference W net api = (Inl e, api1) \<longrightarrow>
      find_next_available_ip W net api = (Inr (JStr ''''), api1)
      \<and> sent api1 = sent api @ [network_lookup_request api net])
   \<and> (find_network_reference W net api = (Inr v, api1) \<and> \<not> (truthy v \<and> is_list v) \<longrightarrow>
      find_next_available_ip W net api = (Inr (JStr ''''), api1)
      \<and> sent api1 = sent api @ [network_lookup_request api net])
   \<and> (find_next_available_ip W net api = (Inr ip, api2) \<and> \<not> truthy ip \<longrightarrow>
      reserve_fixed_address W net mac api = (Inr (JBool False), api2))
   \<and> (find_next_available_ip W net api = (Inl e, api2) \<longrightarrow>
      reserve_fixed_address W net mac api = (Inl e, api2))
   \<and> (find_next_available_ip W net api = (Inr ip, api2) \<and> truthy ip \<longrightarrow>
      sent (snd (reserve_fixed_address W net mac api))
        = sent api2 @ [fixedaddress_request api2 ip mac]
      \<and> fst (reserve_fixed_address W net mac api) =
          (case W (sent api2) (fixedaddress_request api2 ip mac) of
             Inl e \<Rightarrow> Inl e
           | Inr resp \<Rightarrow>
               if 400 \<le> status_code resp \<and> status_code resp < 600
               then Inl (HTTPError (status_code resp))
               else (case body resp of
                       None \<Rightarrow> Inl JSONDecodeError
                     | Some j \<Rightarrow>
                         (case j of
                            JObj kvs \<Rightarrow>
                              (case map_of kvs ''result'' of
                                 Some (JObj res) \<Rightarrow>
                                   Inr (case map_of res ''ipv4addr'' of None \<Rightarrow> JNull | Some x \<Rightarrow> x)
                               | _ \<Rightarrow> Inl AttributeError)
                          | _ \<Rightarrow> Inl AttributeError))))"
proof (intro conjI impI)
  assume a: "find_network_reference W net api = (Inl e, api1)"
  then show "find_next_available_ip W net api = (Inr (JStr ''''), api1)"
    by (rule find_next_lookup_raises)
  show "sent api1 = sent api @ [network_lookup_request api net]"
    using sent_find_network_reference[of W net api] a by simp
next
  assume a: "find_network_reference W net api = (Inr v, api1) \<and> \<not> (truthy v \<and> is_list v)"
  then show "find_next_available_ip W net api = (Inr (JStr ''''), api1)"
    using find_next_lookup_not_list by blast
  show "sent api1 = sent api @ [network_lookup_request api net]"
    using sent_find_network_reference[of W net api] a by simp
next
  assume "find_next_available_ip W net api = (Inr ip, api2) \<and> \<not> truthy ip"
  then show "reserve_fixed_address W net mac api = (Inr (JBool False), api2)"
    using reserve_falsy by blast
next
  assume "find_next_available_ip W net api = (Inl e, api2)"
  then show "reserve_fixed_address W net mac api = (Inl e, api2)"
    by (rule reserve_propagates)
next
  assume "find_next_available_ip W net api = (Inr ip, api2) \<and> truthy ip"
  then show "sent (snd (reserve_fixed_address W net mac api))
             = sent api2 @ [fixedaddress_request api2 ip mac]"
    using reserve_truthy_sent by blast
next
  assume a: "find_next_available_ip W net api = (Inr ip, api2) \<and> truthy ip"
  show "fst (reserve_fixed_address W net mac api) =
          (case W (sent api2) (fixedaddress_request api2 ip mac) of
             Inl e \<Rightarrow> Inl e
           | Inr resp \<Rightarrow>
               if 400 \<le> status_code resp \<and> status_code resp < 600
               then Inl (HTTPError (status_code resp))
               else (case body resp of
                       None \<Rightarrow> Inl JSONDecodeError
                     | Some j \<Rightarrow>
                         (case j of
                            JObj kvs \<Rightarrow>
                              (case map_of kvs ''result'' of
                                 Some (JObj res) \<Rightarrow>
                                   Inr (case map_of res ''ipv4addr'' of None \<Rightarrow> JNull | Some x \<Rightarrow> x)
                               | _ \<Rightarrow> Inl AttributeError)
                          | _ \<Rightarrow> Inl AttributeError)))"
    using a reserve_truthy_outcome[of W net api ip api2 mac]
    by (simp add: py_get_def split: sum.splits option.splits json.splits)
qed

theorem next_available_ip_and_reservation_witness:
  "find_next_available_ip unreachable_appliance ''10.220.0.0/22'' demo_api
     = (Inr (JStr ''''), demo_api\<lparr>sent := [network_lookup_request demo_api ''10.220.0.0/22'']\<rparr>)
   \<and> find_next_available_ip empty_appliance ''10.220.0.0/22'' demo_api
     = (Inr (JStr ''''),
        demo_api\<lparr>cookie := Some [], sent := [network_lookup_request demo_api ''10.220.0.0/22'']\<rparr>)
   \<and> reserve_fixed_address unreachable_appliance ''10.220.0.0/22'' ''aa:bb:cc:dd:ee:ff'' demo_api
     = (Inr (JBool False),
        demo_api\<lparr>sent := [network_lookup_request demo_api ''10.220.0.0/22'']\<rparr>)
   \<and> fst (reserve_fixed_address (demo_appliance 201 (Some reserved_body)) ''10.220.0.0/22''
            ''aa:bb:cc:dd:ee:ff'' demo_api)
     = Inr (JStr ''10.220.0.1'')
   \<and> fst (reserve_fixed_address (demo_appliance 400 (Some reserved_body)) ''10.220.0.0/22''
            ''aa:bb:cc:dd:ee:ff'' demo_api)
     = Inl (HTTPError 400)
   \<and> fst (reserve_fixed_address (demo_appliance 201 (Some (JObj []))) ''10.220.0.0/22''
            ''aa:bb:cc:dd:ee:ff'' demo_api)
     = Inl AttributeError
   \<and> fst (reserve_fixed_address (demo_appliance 201 None) ''10.220.0.0/22''
            ''aa:bb:cc:dd:ee:ff'' demo_api)
     = Inl JSONDecodeError"
proof -
  let ?net = "''10.220.0.0/22''"
  let ?mac = "''aa:bb:cc:dd:ee:ff''"
  let ?down = "demo_api\<lparr>sent := [network_lookup_request demo_api ?net]\<rparr>"
  have 1: "find_next_available_ip unreachable_appliance ?net demo_api = (Inr (JStr ''''), ?down)"
    using next_available_ip_and_reservation[where W = unreachable_appliance and net = ?net
        and api = demo_api and e = "RequestException ''connection refused''" and ?api1.0 = ?down]
      demo_lookup_unreachable by blast
  have 2: "find_next_available_ip empty_appliance ?net demo_api
           = (Inr (JStr ''''), demo_api\<lparr>cookie := Some [], sent := [network_lookup_request demo_api ?net]\<rparr>)"
    using next_available_ip_and_reservation[where W = empty_appliance and net = ?net
        and api = demo_api and v = "JList []"
        and ?api1.0 = "demo_api\<lparr>cookie := Some [], sent := [network_lookup_request demo_api ?net]\<rparr>"]
      demo_lookup_empty by (simp add: truthy_def)
  have 3: "reserve_fixed_address unreachable_appliance ?net ?mac demo_api = (Inr (JBool False), ?down)"
    using next_available_ip_and_reservation[where W = unreachable_appliance and net = ?net
        and api = demo_api and ip = "JStr ''''" and ?api2.0 = ?down and mac = ?mac] 1
    by (simp add: truthy_def)
  have f: "find_next_available_ip (demo_appliance k b) ?net demo_api
           = (Inr (JStr ''10.220.0.1''), snd (find_next_available_ip (demo_appliance k b) ?net demo_api))"
    for k b using demo_find_next[of k b] by (simp add: prod_eq_iff)
  have g: "fst (reserve_fixed_address (demo_appliance k b) ?net ?mac demo_api) =
     (if 400 \<le> k \<and> k < 600 then Inl (HTTPError k)
      else (case b of
              None \<Rightarrow> Inl JSONDecodeError
            | Some j \<Rightarrow>
                (case j of
                   JObj kvs \<Rightarrow>
                     (case map_of kvs ''result'' of
                        Some (JObj res) \<Rightarrow>
                          Inr (case map_of res ''ipv4addr'' of None \<Rightarrow> JNull | Some x \<Rightarrow> x)
                      | _ \<Rightarrow> Inl AttributeError)
                 | _ \<Rightarrow> Inl AttributeError)))" for k b
    using next_available_ip_and_reservation[where W = "demo_appliance k b" and net = ?net
        and api = demo_api and ip = "JStr ''10.220.0.1''" and mac = ?mac
        and ?api2.0 = "snd (find_next_available_ip (demo_appliance k b) ?net demo_api)"]
      f[of k b] demo_fixedaddress_response[of k b]
    by (simp add: truthy_def)
  have 4: "fst (reserve_fixed_address (demo_appliance 201 (Some reserved_body)) ?net ?mac demo_api)
           = Inr (JStr ''10.220.0.1'')"
    unfolding g by (simp add: reserved_body_def)
  have 5: "fst (reserve_fixed_address (demo_appliance 400 (Some reserved_body)) ?net ?mac demo_api)
           = Inl (HTTPError 400)"
    unfolding g by simp
  have 6: "fst (reserve_fixed_address (demo_appliance 201 (Some (JObj []))) ?net ?mac demo_api)
           = Inl AttributeError"
    unfolding g by simp
  have 7: "fst (reserve_fixed_address (demo_appliance 201 None) ?net ?mac demo_api)
           = Inl JSONDecodeError"
    unfolding g by simp
  from 1 2 3 4 5 6 7 show ?thesis by blast
qed

text \<open>
  The claim as first stated says that with a truthy address the function returns the
  reserved address. An appliance that finds the next address and then answers the
  fixed-address request with status 400 makes it raise instead.
\<close>

theorem reservation_raises_counterexample:
  "fst (find_next_available_ip (demo_appliance 400 (Some reserved_body)) ''10.220.0.0/22'' demo_api)
     = Inr (JStr ''10.220.0.1'')
   \<and> truthy (JStr ''10.220.0.1'')
   \<and> fst (reserve_fixed_address (demo_appliance 400 (Some reserved_body)) ''10.220.0.0/22''
            ''aa:bb:cc:dd:ee:ff'' demo_api)
     = Inl (HTTPError 400)"
  by (simp add: api_eval demo_appliance_def reserved_body_def)

section \<open>PTR records\<close>

lemma valid_example: "valid_ipv4 ''10.223.9.96''"
  by (simp add: valid_ipv4_def ipv4_part_def is_digit_def dec_val_def digit_val_def)

lemma reverse_pointer_example: "reverse_pointer ''10.223.9.96'' = ''96.9.223.10.in-addr.arpa''"
  by (simp add: reverse_pointer_def)

text \<open>
  Claim C10. For a valid IPv4 address \<open>create_ptr_record\<close> issues exactly one request,
  the POST to \<open>record:ptr\<close> whose payload has as \<open>name\<close> the reverse-DNS name of the
  address without the trailing root dot, as \<open>ptrdname\<close> the given FQDN and as
  \<open>ipv4addr\<close> the address.
\<close>

theorem create_ptr_record_payload:
  assumes "valid_ipv4 ip"
  shows "sent (snd (create_ptr_record W other fqdn ip api))
         = sent api @ [ptr_request api (reverse_pointer ip) fqdn ip]"
proof -
  have n: "reversename_from_address other ip = Inr (reverse_pointer ip @ ''.'')"
    using assms by (simp add: reversename_from_address_def reverse_pointer_def)
  have "sent (snd (create_ptr_record W other fqdn ip api))
        = sent (snd (api_request W ''POST'' (JStr ''record:ptr'')
                     [(''_return_fields'', JStr ''name,ptrdname,ipv4addr''), (''_return_as_object'', JInt 1)]
                     (Some (JObj [(''name'', JStr (reverse_pointer ip)), (''ptrdname'', JStr fqdn),
                                  (''ipv4addr'', JStr ip)])) api))"
    by (simp add: create_ptr_record_def n Let_def butlast_append split: prod.splits sum.splits)
  then show ?thesis by (simp add: sent_api_request ptr_request_def)
qed

theorem create_ptr_record_payload_witness:
  "valid_ipv4 ''10.223.9.96''
   \<and> sent (snd (create_ptr_record (demo_appliance 200 None) (\<lambda>t. Inl TypeError) ''r4.test''
                  ''10.223.9.96'' demo_api))
     = [ptr_request demo_api ''96.9.223.10.in-addr.arpa'' ''r4.test'' ''10.223.9.96'']
   \<and> req_json (ptr_request demo_api ''96.9.223.10.in-addr.arpa'' ''r4.test'' ''10.223.9.96'')
     = Some (JObj [(''name'', JStr ''96.9.223.10.in-addr.arpa''), (''ptrdname'', JStr ''r4.test''),
                   (''ipv4addr'', JStr ''10.223.9.96'')])"
  using create_ptr_record_payload[OF valid_example, of "demo_appliance 200 None" "\<lambda>t. Inl TypeError"
      "''r4.test''" demo_api] valid_example
  by (simp add: reverse_pointer_example demo_api_def ptr_request_def build_request_def)

section \<open>The reconciliation engine: basic facts\<close>

lemma lookup_None_iff: "(lookup S i = None) = (i \<notin> entity_ident ` set S)"
  by (auto simp: lookup_def find_None_iff)

lemma lookup_SomeD: "lookup S i = Some e \<Longrightarrow> entity_ident e = i \<and> e \<in> set S"
  by (auto simp: lookup_def find_Some_iff)

lemma lookup_wf: "wf_snapshot S \<Longrightarrow> e \<in> set S \<Longrightarrow> lookup S (entity_ident e) = Some e"
proof (induction S)
  case Nil then show ?case by simp
next
  case (Cons x S)
  then show ?case by (auto simp: lookup_def wf_snapshot_def)
qed

lemma set_kind_idents:
  "set (kind_idents c K A B) = {i \<in> entity_ident ` (set A \<union> set B). ident_kind i = K}"
  by (auto simp: kind_idents_def)

lemma distinct_kind_idents: "distinct (kind_idents c K A B)"
  by (simp add: kind_idents_def)

lemma sorted_kind_idents: "sorted (map (ident_string c) (kind_idents c K A B))"
  by (simp add: kind_idents_def)

lemma concat_map_if: "concat (map (\<lambda>x. if P x then [h x] else []) xs) = map h (filter P xs)"
  by (induction xs) auto

lemma filter_concat_map: "filter P (concat (map f xs)) = concat (map (\<lambda>x. filter P (f x)) xs)"
  by (induction xs) auto

lemma deletes_diff_ident:
  "filter is_delete (diff_ident A B i) = (if only_target A B i then [Delete i] else [])"
  by (auto simp: diff_ident_def only_target_def split: option.splits)

lemma deletes_diff_kind:
  "filter is_delete (diff_kind c K A B) = map Delete (filter (only_target A B) (kind_idents c K A B))"
  by (simp add: diff_kind_def filter_concat_map deletes_diff_ident concat_map_if)

lemma op_ident_diff_ident: "x \<in> set (diff_ident A B i) \<Longrightarrow> op_ident x = i"
  by (auto simp: diff_ident_def dest: lookup_SomeD split: option.splits if_splits)

lemma changed_fields_network: "changed_fields (NetworkEntity n) b = []"
  by (simp add: changed_fields_def Network_attributes_def)

lemma not_differing_network: "ident_kind i = NetworkKind \<Longrightarrow> \<not> differing A B i"
proof (cases "lookup A i")
  case None then show ?thesis by (simp add: differing_def)
next
  case (Some a)
  assume k: "ident_kind i = NetworkKind"
  from Some have "entity_ident a = i" by (simp add: lookup_SomeD)
  with k obtain n where "a = NetworkEntity n" by (cases a) auto
  then show ?thesis using Some by (simp add: differing_def changed_fields_network split: option.splits)
qed

lemma nondeletes_diff_ident:
  "filter (\<lambda>x. \<not> is_delete x) (diff_ident A B i) =
     (if only_source A B i then [create_of A i] else if differing A B i then [update_of A B i] else [])"
  by (auto simp: diff_ident_def only_source_def differing_def create_of_def update_of_def
      split: option.splits)

lemma nondeletes_network:
  "filter (\<lambda>x. \<not> is_delete x) (diff_kind c NetworkKind A B)
   = map (create_of A) (filter (only_source A B) (kind_idents c NetworkKind A B))"
proof -
  have "map (\<lambda>i. filter (\<lambda>x. \<not> is_delete x) (diff_ident A B i)) (kind_idents c NetworkKind A B)
        = map (\<lambda>i. if only_source A B i then [create_of A i] else []) (kind_idents c NetworkKind A B)"
    by (rule map_cong) (auto simp: nondeletes_diff_ident set_kind_idents not_differing_network)
  then have "concat (map (\<lambda>i. filter (\<lambda>x. \<not> is_delete x) (diff_ident A B i))
                      (kind_idents c NetworkKind A B))
        = concat (map (\<lambda>i. if only_source A B i then [create_of A i] else [])
                      (kind_idents c NetworkKind A B))"
    by (rule arg_cong)
  then show ?thesis
    by (simp only: diff_kind_def filter_concat_map concat_map_if)
qed

lemma set_reconcile:
  "set (reconcile c A B) = set (diff_kind c NetworkKind A B) \<union> set (diff_kind c IPAddressKind A B)"
  by (auto simp: reconcile_def Let_def)

lemma set_diff_kinds:
  "set (diff_kind c NetworkKind A B) \<union> set (diff_kind c IPAddressKind A B)
   = (\<Union>i \<in> entity_ident ` (set A \<union> set B). set (diff_ident A B i))"
proof -
  have "\<And>i. ident_kind i = NetworkKind \<or> ident_kind i = IPAddressKind"
    by (metis kind.exhaust)
  then show ?thesis
    unfolding diff_kind_def set_concat set_map set_kind_idents by blast
qed

lemma diff_ident_outside: "i \<notin> entity_ident ` (set A \<union> set B) \<Longrightarrow> diff_ident A B i = []"
  by (simp add: diff_ident_def lookup_None_iff[symmetric] image_Un)

lemma in_reconcile_iff: "(x \<in> set (reconcile c A B)) = (x \<in> set (diff_ident A B (op_ident x)))"
proof
  assume "x \<in> set (reconcile c A B)"
  then obtain i where "x \<in> set (diff_ident A B i)"
    unfolding set_reconcile set_diff_kinds by blast
  then show "x \<in> set (diff_ident A B (op_ident x))" using op_ident_diff_ident by blast
next
  assume a: "x \<in> set (diff_ident A B (op_ident x))"
  have "op_ident x \<in> entity_ident ` (set A \<union> set B)"
  proof (rule ccontr)
    assume "op_ident x \<notin> entity_ident ` (set A \<union> set B)"
    then have "diff_ident A B (op_ident x) = []" by (rule diff_ident_outside)
    with a show False by simp
  qed
  then show "x \<in> set (reconcile c A B)"
    unfolding set_reconcile set_diff_kinds using a by blast
qed

lemma Create_in_reconcile:
  "(Create e \<in> set (reconcile c A B)) = (lookup A (entity_ident e) = Some e \<and> lookup B (entity_ident e) = None)"
  by (auto simp: in_reconcile_iff diff_ident_def split: option.splits)

lemma Delete_in_reconcile:
  "(Delete i \<in> set (reconcile c A B)) = (lookup A i = None \<and> lookup B i \<noteq> None)"
  by (cases "lookup A i"; cases "lookup B i"; simp add: in_reconcile_iff diff_ident_def)

lemma created_entities:
  assumes "wf_snapshot A"
  shows "{e. Create e \<in> set (reconcile c A B)} = {e \<in> set A. entity_ident e \<notin> entity_ident ` set B}"
  using assms
  by (auto simp: Create_in_reconcile lookup_None_iff lookup_wf dest: lookup_SomeD)

lemma deleted_idents:
  "{i. Delete i \<in> set (reconcile c A B)} = entity_ident ` set B - entity_ident ` set A"
  by (auto simp: Delete_in_reconcile lookup_None_iff)

lemma distinct_singleton: "distinct xs \<Longrightarrow> set xs = {x} \<Longrightarrow> xs = [x]"
  by (cases xs) (auto simp: subset_singleton_iff)

lemma distinct_empty: "set xs = {} \<Longrightarrow> xs = []"
  by simp

lemma three_networks:
  assumes wfA: "wf_snapshot A" and wfB: "wf_snapshot B"
    and A: "set A = {NetworkEntity n1, NetworkEntity n2}"
    and B: "set B = {NetworkEntity n2, NetworkEntity n3}"
    and d: "network n1 \<noteq> network n2" "network n2 \<noteq> network n3" "network n1 \<noteq> network n3"
  shows "reconcile c A B = [Create (NetworkEntity n1), Delete (NetworkId (network n3))]"
proof -
  have idsA: "entity_ident ` set A = {NetworkId (network n1), NetworkId (network n2)}"
    and idsB: "entity_ident ` set B = {NetworkId (network n2), NetworkId (network n3)}"
    using A B by simp_all
  have ip: "kind_idents c IPAddressKind A B = []"
    by (rule distinct_empty) (auto simp: set_kind_idents image_Un idsA idsB)
  have src: "filter (only_source A B) (kind_idents c NetworkKind A B) = [NetworkId (network n1)]"
    by (rule distinct_singleton)
      (use d in \<open>auto simp: distinct_kind_idents set_kind_idents image_Un idsA idsB
          only_source_def lookup_None_iff\<close>)
  have tgt: "filter (only_target A B) (kind_idents c NetworkKind A B) = [NetworkId (network n3)]"
    by (rule distinct_singleton)
      (use d in \<open>auto simp: distinct_kind_idents set_kind_idents image_Un idsA idsB
          only_target_def lookup_None_iff\<close>)
  have "NetworkEntity n1 \<in> set A" using A by simp
  then have l: "lookup A (NetworkId (network n1)) = Some (NetworkEntity n1)"
    using lookup_wf[OF wfA, of "NetworkEntity n1"] by simp
  have ipops: "diff_kind c IPAddressKind A B = []"
    by (simp add: diff_kind_def ip)
  show ?thesis
    by (simp add: reconcile_def Let_def nondeletes_network deletes_diff_kind src tgt
        ipops create_of_def l)
qed


lemma ident_set_attr: "entity_ident (set_attr f v e) = entity_ident e"
  by (cases e) auto

lemma ident_apply_changes: "entity_ident (foldl apply_change e chs) = entity_ident e"
proof (induction chs arbitrary: e)
  case Nil show ?case by simp
next
  case (Cons ch chs)
  show ?case by (cases ch) (simp add: Cons ident_set_attr)
qed

lemma lookup_append_one:
  "lookup (S @ [e]) k =
     (case lookup S k of Some y \<Rightarrow> Some y | None \<Rightarrow> if entity_ident e = k then Some e else None)"
  by (induction S) (auto simp: lookup_def)

lemma lookup_map_preserving:
  "(\<And>e. entity_ident (f e) = entity_ident e) \<Longrightarrow> lookup (map f S) k = map_option f (lookup S k)"
  by (induction S) (auto simp: lookup_def)

lemma lookup_update:
  "lookup (map (\<lambda>e. if entity_ident e = i then foldl apply_change e chs else e) S) k
   = (if i = k then map_option (\<lambda>e. foldl apply_change e chs) (lookup S k) else lookup S k)"
  by (induction S) (auto simp: lookup_def ident_apply_changes)

lemma lookup_delete:
  "lookup (filter (\<lambda>e. entity_ident e \<noteq> i) S) k = (if i = k then None else lookup S k)"
  by (induction S) (auto simp: lookup_def)

lemma lookup_apply_operation:
  "lookup (apply_operation S x) k = (if op_ident x = k then op_step x (lookup S k) else lookup S k)"
proof (cases x)
  case (Create e)
  then show ?thesis by (auto simp: lookup_append_one split: option.splits)
next
  case (Update i chs)
  then show ?thesis by (simp add: lookup_update)
next
  case (Delete i)
  then show ?thesis by (simp add: lookup_delete)
qed

lemma lookup_apply_operations:
  "lookup (apply_operations ops S) k
   = foldl (\<lambda>l x. op_step x l) (lookup S k) (filter (\<lambda>x. op_ident x = k) ops)"
  unfolding apply_operations_def
  by (induction ops arbitrary: S) (simp_all add: lookup_apply_operation)

lemma length_diff_ident: "length (diff_ident A B i) \<le> 1"
  by (simp add: diff_ident_def split: option.splits)

lemma split_short: "length xs \<le> 1 \<Longrightarrow> filter (\<lambda>x. \<not> P x) xs @ filter P xs = xs"
  by (cases xs) auto

lemma filter_ident_concat:
  "distinct ks \<Longrightarrow>
   filter (\<lambda>x. op_ident x = k) (concat (map (diff_ident A B) ks))
   = (if k \<in> set ks then diff_ident A B k else [])"
proof (induction ks)
  case Nil show ?case by simp
next
  case (Cons i ks)
  have own: "filter (\<lambda>x. op_ident x = k) (diff_ident A B i) = (if i = k then diff_ident A B i else [])"
    by (auto simp: filter_empty_conv dest: op_ident_diff_ident intro: filter_True)
  show ?case using Cons by (auto simp: own)
qed

lemma filter_ident_diff_kind:
  "filter (\<lambda>x. op_ident x = k) (diff_kind c K A B) = (if ident_kind k = K then diff_ident A B k else [])"
proof -
  have "filter (\<lambda>x. op_ident x = k) (diff_kind c K A B)
        = (if k \<in> set (kind_idents c K A B) then diff_ident A B k else [])"
    unfolding diff_kind_def by (rule filter_ident_concat) (rule distinct_kind_idents)
  moreover have "diff_ident A B k = []" if "k \<notin> entity_ident ` (set A \<union> set B)"
    using that by (rule diff_ident_outside)
  ultimately show ?thesis by (auto simp: set_kind_idents)
qed

lemma filter_ident_reconcile:
  "filter (\<lambda>x. op_ident x = k) (reconcile c A B) = diff_ident A B k"
proof -
  let ?F = "filter (\<lambda>x. op_ident x = k)"
  let ?net = "diff_kind c NetworkKind A B"
  have comm: "?F (filter P xs) = filter P (?F xs)" for P xs
    by (induction xs) auto
  have "?F (reconcile c A B)
        = filter (\<lambda>x. \<not> is_delete x) (?F ?net) @ ?F (diff_kind c IPAddressKind A B)
          @ filter is_delete (?F ?net)"
    by (simp only: reconcile_def Let_def filter_append comm)
  also have "\<dots> = diff_ident A B k"
  proof (cases "ident_kind k")
    case NetworkKind
    then show ?thesis
      using split_short[OF length_diff_ident, of is_delete A B k]
      by (simp add: filter_ident_diff_kind)
  next
    case IPAddressKind
    then show ?thesis by (simp add: filter_ident_diff_kind)
  qed
  finally show ?thesis .
qed

lemma changed_fields_refl: "changed_fields a a = []"
  by (simp add: changed_fields_def)

lemma changed_fields_after_update:
  assumes "entity_ident a = entity_ident b"
  shows "changed_fields a (foldl apply_change b (changed_fields a b)) = []"
proof (cases a)
  case (NetworkEntity n)
  then show ?thesis by (simp add: changed_fields_network)
next
  case (IPAddressEntity x)
  with assms obtain y where b: "b = IPAddressEntity y" by (cases b) auto
  show ?thesis
    unfolding IPAddressEntity b
    by (simp add: changed_fields_def IPAddress_attributes_def IPAddress_getattr_def)
qed

lemma lookup_after_reconcile:
  "lookup (apply_operations (reconcile c A B) B) k =
     (case lookup A k of
        None \<Rightarrow> None
      | Some a \<Rightarrow>
          (case lookup B k of
             None \<Rightarrow> Some a
           | Some b \<Rightarrow> Some (if changed_fields a b = [] then b
                              else foldl apply_change b (changed_fields a b))))"
  by (simp add: lookup_apply_operations filter_ident_reconcile diff_ident_def split: option.splits)

lemma diff_ident_after_reconcile:
  "diff_ident A (apply_operations (reconcile c A B) B) k = []"
proof (cases "lookup A k")
  case None
  then show ?thesis by (simp add: diff_ident_def lookup_after_reconcile)
next
  case (Some a)
  show ?thesis
  proof (cases "lookup B k")
    case None
    then show ?thesis using Some
      by (simp add: diff_ident_def lookup_after_reconcile changed_fields_refl)
  next
    case (Some b)
    have "entity_ident a = entity_ident b"
      using \<open>lookup A k = Some a\<close> Some by (simp add: lookup_SomeD)
    then show ?thesis using \<open>lookup A k = Some a\<close> Some
      by (simp add: diff_ident_def lookup_after_reconcile changed_fields_after_update)
  qed
qed

lemma idents_after_reconcile:
  "entity_ident ` set (apply_operations (reconcile c A B) B) = entity_ident ` set A"
proof -
  have "(lookup (apply_operations (reconcile c A B) B) k = None) = (lookup A k = None)" for k
    by (simp add: lookup_after_reconcile split: option.splits)
  then show ?thesis unfolding lookup_None_iff by blast
qed

lemma diff_kind_after_reconcile: "diff_kind c K A (apply_operations (reconcile c A B) B) = []"
  by (simp add: diff_kind_def diff_ident_after_reconcile)

lemma reconcile_empty: "(\<And>K. diff_kind c K A B = []) \<Longrightarrow> reconcile c A B = []"
  by (simp add: reconcile_def Let_def)

lemma reconcile_after_reconcile: "reconcile c A (apply_operations (reconcile c A B) B) = []"
  by (rule reconcile_empty) (rule diff_kind_after_reconcile)

lemma unchanged_after_reconcile:
  assumes "wf_snapshot A"
  shows "unchanged_count c K A (apply_operations (reconcile c A B) B)
         = length (filter (\<lambda>e. ident_kind (entity_ident e) = K) A)"
proof -
  let ?B = "apply_operations (reconcile c A B) B"
  let ?ks = "kind_idents c K A ?B"
  have ids: "entity_ident ` (set A \<union> set ?B) = entity_ident ` set A"
    by (simp add: image_Un idents_after_reconcile)
  have ks: "set ?ks = {i \<in> entity_ident ` set A. ident_kind i = K}"
    unfolding set_kind_idents ids ..
  have all: "filter (\<lambda>i. lookup A i \<noteq> None \<and> lookup ?B i \<noteq> None \<and> diff_ident A ?B i = []) ?ks = ?ks"
    by (rule filter_True)
      (auto simp: ks idents_after_reconcile lookup_None_iff diff_ident_after_reconcile)
  have d: "distinct (map entity_ident (filter (\<lambda>e. ident_kind (entity_ident e) = K) A))"
    using assms by (simp add: wf_snapshot_def distinct_map_filter)
  have "set ?ks = set (map entity_ident (filter (\<lambda>e. ident_kind (entity_ident e) = K) A))"
    unfolding ks by auto
  then have "card (set ?ks) = card (set (map entity_ident (filter (\<lambda>e. ident_kind (entity_ident e) = K) A)))"
    by simp
  then have "length ?ks = length (map entity_ident (filter (\<lambda>e. ident_kind (entity_ident e) = K) A))"
    using distinct_card[OF distinct_kind_idents] distinct_card[OF d] by metis
  then show ?thesis by (simp only: unchanged_count_def all length_map)
qed


section \<open>Properties of the reconciliation engine\<close>

lemma wf_example_source: "wf_snapshot example_source"
  by (simp add: wf_snapshot_def example_source_def)

lemma wf_example_target: "wf_snapshot example_target"
  by (simp add: wf_snapshot_def example_target_def)

text \<open>
  Claim C5. For snapshots without duplicate identifiers the created records are exactly
  the source records whose identifier the target lacks, and the deleted identifiers
  exactly those of the target that the source lacks. For source \<open>{n1, n2}\<close> and target
  \<open>{n2, n3}\<close>, Networks with distinct identifiers, the emitted list is the create of
  \<open>n1\<close> followed by the delete of \<open>n3\<close>, with no update.
\<close>

theorem reconcile_symmetric_difference:
  assumes "wf_snapshot A" and "wf_snapshot B"
  shows "{e. Create e \<in> set (reconcile c A B)}
           = {e \<in> set A. entity_ident e \<notin> entity_ident ` set B}
         \<and> {i. Delete i \<in> set (reconcile c A B)} = entity_ident ` set B - entity_ident ` set A
         \<and> (set A = {NetworkEntity n1, NetworkEntity n2}
              \<and> set B = {NetworkEntity n2, NetworkEntity n3}
              \<and> network n1 \<noteq> network n2 \<and> network n2 \<noteq> network n3 \<and> network n1 \<noteq> network n3
            \<longrightarrow> reconcile c A B = [Create (NetworkEntity n1), Delete (NetworkId (network n3))])"
  using assms created_entities[of A c B] deleted_idents[of c A B]
    three_networks[of A B n1 n2 n3 c]
  by blast

theorem reconcile_symmetric_difference_witness:
  "wf_snapshot [NetworkEntity \<lparr>network = ''10.1.0.0/16''\<rparr>, NetworkEntity \<lparr>network = ''10.2.0.0/16''\<rparr>]
   \<and> wf_snapshot [NetworkEntity \<lparr>network = ''10.2.0.0/16''\<rparr>, NetworkEntity \<lparr>network = ''10.3.0.0/16''\<rparr>]
   \<and> reconcile joined
        [NetworkEntity \<lparr>network = ''10.1.0.0/16''\<rparr>, NetworkEntity \<lparr>network = ''10.2.0.0/16''\<rparr>]
        [NetworkEntity \<lparr>network = ''10.2.0.0/16''\<rparr>, NetworkEntity \<lparr>network = ''10.3.0.0/16''\<rparr>]
      = [Create (NetworkEntity \<lparr>network = ''10.1.0.0/16''\<rparr>), Delete (NetworkId ''10.3.0.0/16'')]"
proof -
  let ?A = "[NetworkEntity \<lparr>network = ''10.1.0.0/16''\<rparr>, NetworkEntity \<lparr>network = ''10.2.0.0/16''\<rparr>]"
  let ?B = "[NetworkEntity \<lparr>network = ''10.2.0.0/16''\<rparr>, NetworkEntity \<lparr>network = ''10.3.0.0/16''\<rparr>]"
  have a: "wf_snapshot ?A" and b: "wf_snapshot ?B" by (simp_all add: wf_snapshot_def)
  show ?thesis
    using reconcile_symmetric_difference[OF a b, of joined
        "\<lparr>network = ''10.1.0.0/16''\<rparr>" "\<lparr>network = ''10.2.0.0/16''\<rparr>" "\<lparr>network = ''10.3.0.0/16''\<rparr>"]
      a b
    by simp
qed

text \<open>
  Claim C4. After the operations of a reconciliation have been applied to the target,
  a second reconciliation of the same source against the result emits no operation and
  counts every entity of the source, of either kind, as unchanged.
\<close>

theorem reconcile_idempotent:
  assumes "wf_snapshot A"
  shows "reconcile c A (apply_operations (reconcile c A B) B) = []
         \<and> (\<forall>K. unchanged_count c K A (apply_operations (reconcile c A B) B)
                  = length (filter (\<lambda>e. ident_kind (entity_ident e) = K) A))"
  using assms reconcile_after_reconcile[of c A B] unchanged_after_reconcile[of A c _ B]
  by blast

theorem reconcile_idempotent_witness:
  "wf_snapshot example_source
   \<and> reconcile joined example_source
        (apply_operations (reconcile joined example_source example_target) example_target) = []
   \<and> unchanged_count joined NetworkKind example_source
        (apply_operations (reconcile joined example_source example_target) example_target) = 2
   \<and> unchanged_count joined IPAddressKind example_source
        (apply_operations (reconcile joined example_source example_target) example_target) = 3"
proof -
  have n: "length (filter (\<lambda>e. ident_kind (entity_ident e) = NetworkKind) example_source) = 2"
    and i: "length (filter (\<lambda>e. ident_kind (entity_ident e) = IPAddressKind) example_source) = 3"
    by (simp_all add: example_source_def)
  show ?thesis
    using reconcile_idempotent[OF wf_example_source, of joined example_target]
      wf_example_source n i
    by simp
qed

end
